theory Spec2Isabelle
  imports Main "HOL-Library.Word"
begin

unbundle bit_operations_syntax

section \<open>Win32 types and constants used by pmnc3ksvc\<close>

text \<open>
  \<open>DWORD\<close> and \<open>unsigned long\<close> are 32 bits wide on Windows. A \<open>HANDLE\<close> is an
  opaque pointer-sized value of which the program only uses equality; it is modelled as an
  integer, with \<open>INVALID_HANDLE_VALUE\<close> being \<open>(HANDLE)-1\<close>. The numeric constants
  are those of the Windows SDK headers (winbase.h, winerror.h, winsvc.h).
\<close>

type_synonym DWORD = "32 word"
type_synonym HANDLE = int
type_synonym byte = "8 word"

definition INVALID_HANDLE_VALUE :: HANDLE where
  "INVALID_HANDLE_VALUE = - 1"

definition STD_INPUT_HANDLE :: DWORD where
  "STD_INPUT_HANDLE = - 10"

definition STD_OUTPUT_HANDLE :: DWORD where
  "STD_OUTPUT_HANDLE = - 11"

definition STD_ERROR_HANDLE :: DWORD where
  "STD_ERROR_HANDLE = - 12"

definition WAIT_OBJECT_0 :: DWORD where
  "WAIT_OBJECT_0 = 0"

definition WAIT_TIMEOUT :: DWORD where
  "WAIT_TIMEOUT = 258"

definition NO_ERROR :: DWORD where
  "NO_ERROR = 0"




definition ERROR_CALL_NOT_IMPLEMENTED :: DWORD where
  "ERROR_CALL_NOT_IMPLEMENTED = 120"

definition SERVICE_WIN32_OWN_PROCESS :: DWORD where
  "SERVICE_WIN32_OWN_PROCESS = 16"

definition SERVICE_STOPPED :: DWORD where
  "SERVICE_STOPPED = 1"

definition SERVICE_START_PENDING :: DWORD where
  "SERVICE_START_PENDING = 2"

definition SERVICE_STOP_PENDING :: DWORD where
  "SERVICE_STOP_PENDING = 3"

definition SERVICE_RUNNING :: DWORD where
  "SERVICE_RUNNING = 4"

definition SERVICE_CONTROL_STOP :: DWORD where
  "SERVICE_CONTROL_STOP = 1"

definition SERVICE_CONTROL_SHUTDOWN :: DWORD where
  "SERVICE_CONTROL_SHUTDOWN = 5"

definition SERVICE_ACCEPT_STOP :: DWORD where
  "SERVICE_ACCEPT_STOP = 1"

definition SERVICE_ACCEPT_SHUTDOWN :: DWORD where
  "SERVICE_ACCEPT_SHUTDOWN = 4"

record SERVICE_STATUS =
  dwServiceType :: DWORD
  dwCurrentState :: DWORD
  dwControlsAccepted :: DWORD
  dwWin32ExitCode :: DWORD
  dwServiceSpecificExitCode :: DWORD
  dwCheckPoint :: DWORD
  dwWaitHint :: DWORD

section \<open>The operating system as seen by the program\<close>

text \<open>
  The program talks to the operating system through Win32 calls only. The model keeps
  the one piece of process-wide state the program reads back, the binding of the three
  standard streams to handles, and a log of the calls made, oldest first. Calls that only
  fill in a local structure or read a value of the calling thread
  (\<open>InitializeSecurityDescriptor\<close>, \<open>SetSecurityDescriptorDacl\<close>,
  \<open>GetCurrentProcess\<close>, \<open>GetLastError\<close>) are not logged. What the system
  answers to a call that can fail is not computed by the model: it is an argument (a
  reply) of the function that makes the call, so a theorem that quantifies over the
  replies covers every behaviour of the system.
\<close>

datatype os_call =
    CreatePipe_call
  | GetStdHandle_call DWORD
  | SetStdHandle_call DWORD HANDLE
  | DuplicateHandle_call HANDLE
  | CloseHandle_call HANDLE
  | WriteFile_call HANDLE "byte list"
  | FlushFileBuffers_call HANDLE
  | ReadFile_call HANDLE DWORD
  | CreateProcess_call string HANDLE HANDLE HANDLE
  | WaitForSingleObject_call HANDLE DWORD
  | TerminateProcess_call HANDLE DWORD
  | GetExitCodeProcess_call HANDLE
  | Sleep_call DWORD
  | RegisterServiceCtrlHandlerEx_call string
  | SetServiceStatus_call HANDLE SERVICE_STATUS

record world =
  std_handle :: "DWORD \<Rightarrow> HANDLE"
  calls :: "os_call list"

definition logged :: "os_call \<Rightarrow> world \<Rightarrow> world" where
  "logged c w = w\<lparr>calls := calls w @ [c]\<rparr>"

definition GetStdHandle :: "DWORD \<Rightarrow> world \<Rightarrow> HANDLE \<times> world" where
  "GetStdHandle nStdHandle w = (std_handle w nStdHandle, logged (GetStdHandle_call nStdHandle) w)"

definition SetStdHandle :: "DWORD \<Rightarrow> HANDLE \<Rightarrow> world \<Rightarrow> world" where
  "SetStdHandle nStdHandle h w =
     logged (SetStdHandle_call nStdHandle h) (w\<lparr>std_handle := (std_handle w)(nStdHandle := h)\<rparr>)"

definition CloseHandle :: "HANDLE \<Rightarrow> world \<Rightarrow> world" where
  "CloseHandle h w = logged (CloseHandle_call h) w"

text \<open>
  \<open>CreatePipe\<close> stores the two new ends into its out-parameters when it succeeds and
  leaves them as they were when it fails. \<open>DuplicateHandle\<close> does the same with its
  single out-parameter.
\<close>

definition CreatePipe :: "(HANDLE \<times> HANDLE) option \<Rightarrow> HANDLE \<times> HANDLE \<Rightarrow> world
    \<Rightarrow> (HANDLE \<times> HANDLE) \<times> world" where
  "CreatePipe reply out w =
     ((case reply of None \<Rightarrow> out | Some ends \<Rightarrow> ends), logged CreatePipe_call w)"

definition DuplicateHandle :: "HANDLE option \<Rightarrow> HANDLE \<Rightarrow> HANDLE \<Rightarrow> world \<Rightarrow> HANDLE \<times> world" where
  "DuplicateHandle reply out hSource w =
     ((case reply of None \<Rightarrow> out | Some h \<Rightarrow> h), logged (DuplicateHandle_call hSource) w)"

section \<open>CIOPipe (popen\_win32.cpp)\<close>

record CIOPipe =
  m_dwHandleType :: DWORD
  m_hSaved :: HANDLE
  m_hRead :: HANDLE
  m_hWrite :: HANDLE
  m_hClose :: HANDLE

text \<open>
  What the system answers during one \<open>CIOPipe\<close> construction. The constructor gives
  no initial value to the local \<open>hRead\<close>/\<open>hWrite\<close> that receives the duplicate, nor to
  the member \<open>m_hClose\<close>; the values these happen to hold are \<open>uninit_local\<close> and
  \<open>uninit_member\<close>.
\<close>

record pipe_replies =
  created :: "(HANDLE \<times> HANDLE) option"
  duplicated :: "HANDLE option"
  uninit_local :: HANDLE
  uninit_member :: HANDLE

definition CIOPipe_ctor :: "pipe_replies \<Rightarrow> DWORD \<Rightarrow> char \<Rightarrow> world \<Rightarrow> CIOPipe \<times> world" where
  "CIOPipe_ctor R dwHandleType cMode w0 =
     (let ((hR, hW), w1) = CreatePipe (created R) (INVALID_HANDLE_VALUE, INVALID_HANDLE_VALUE) w0;
          (hSaved, w2) = GetStdHandle dwHandleType w1
      in if cMode = CHR ''r'' then
           (let (hRead, w3) = DuplicateHandle (duplicated R) (uninit_local R) hR w2;
                w4 = CloseHandle hR w3;
                w5 = SetStdHandle dwHandleType hW w4
            in (\<lparr>m_dwHandleType = dwHandleType, m_hSaved = hSaved, m_hRead = hRead,
                 m_hWrite = hW, m_hClose = hW\<rparr>, w5))
         else if cMode = CHR ''w'' then
           (let (hWrite, w3) = DuplicateHandle (duplicated R) (uninit_local R) hW w2;
                w4 = CloseHandle hW w3;
                w5 = SetStdHandle dwHandleType hR w4
            in (\<lparr>m_dwHandleType = dwHandleType, m_hSaved = hSaved, m_hRead = hR,
                 m_hWrite = hWrite, m_hClose = hR\<rparr>, w5))
         else
           (\<lparr>m_dwHandleType = dwHandleType, m_hSaved = hSaved, m_hRead = hR,
             m_hWrite = hW, m_hClose = uninit_member R\<rparr>, w2))"

definition CIOPipe_dtor :: "CIOPipe \<Rightarrow> world \<Rightarrow> world" where
  "CIOPipe_dtor this w = CloseHandle (m_hClose this) (SetStdHandle (m_dwHandleType this) (m_hSaved this) w)"

text \<open>A console process whose three standard streams are bound to the handles 3, 7 and 11.\<close>

definition console_world :: world where
  "console_world =
     \<lparr>std_handle = (\<lambda>t. if t = STD_INPUT_HANDLE then 3 else if t = STD_OUTPUT_HANDLE then 7
                          else if t = STD_ERROR_HANDLE then 11 else INVALID_HANDLE_VALUE),
      calls = []\<rparr>"

definition pipe_ok :: "HANDLE \<Rightarrow> pipe_replies" where
  "pipe_ok h = \<lparr>created = Some (h, h + 1), duplicated = Some (h + 2), uninit_local = 0, uninit_member = 0\<rparr>"

definition pipe_failed :: pipe_replies where
  "pipe_failed = \<lparr>created = None, duplicated = None, uninit_local = 0, uninit_member = 0\<rparr>"

section \<open>CSatelliteProcess (popen.h, popen\_win32.cpp)\<close>

record CSatelliteProcessImpl =
  m_hStdIn :: HANDLE
  m_hStdOut :: HANDLE
  m_hStdErr :: HANDLE
  m_hProcess :: HANDLE

text \<open>
  \<open>m_shpoImpl\<close> is a \<open>shared_ptr\<close> that the constructor points at a fresh
  \<open>CSatelliteProcessImpl\<close>; no code of the repository copies a \<open>CSatelliteProcess\<close>,
  so the object is the only owner and the record holds the implementation itself.
\<close>

record CSatelliteProcess =
  m_strCommandLine :: string
  m_shpoImpl :: CSatelliteProcessImpl
  m_boolCompleted :: bool
  m_ulRetCode :: DWORD
  m_ulDestructorWaitMs :: DWORD

subsection \<open>Write\<close>

text \<open>
  \<open>WriteFile\<close> is asked to write the first \<open>nNumberOfBytesToWrite\<close> bytes found at
  \<open>lpBuffer\<close>; the log keeps exactly these bytes. The program ignores both the result
  of the call and the count of bytes written, and ignores the result of
  \<open>FlushFileBuffers\<close>, so neither has a reply in the model.
\<close>

definition WriteFile :: "HANDLE \<Rightarrow> byte list \<Rightarrow> DWORD \<Rightarrow> world \<Rightarrow> world" where
  "WriteFile hFile lpBuffer nNumberOfBytesToWrite w =
     logged (WriteFile_call hFile (take (unat nNumberOfBytesToWrite) lpBuffer)) w"

definition FlushFileBuffers :: "HANDLE \<Rightarrow> world \<Rightarrow> world" where
  "FlushFileBuffers hFile w = logged (FlushFileBuffers_call hFile) w"

text \<open>
  The macro \<open>PIPE_OUTPUT_BUFFER_SIZE\<close> is defined in a header that is not part of the
  sources at hand; it is the first parameter of \<open>Write\<close>. Likewise
  \<open>PIPE_INPUT_BUFFER_SIZE\<close> for the read functions.
\<close>

definition CSatelliteProcessImpl_Write :: "DWORD \<Rightarrow> CSatelliteProcessImpl \<Rightarrow> byte list \<Rightarrow> DWORD
    \<Rightarrow> world \<Rightarrow> world" where
  "CSatelliteProcessImpl_Write PIPE_OUTPUT_BUFFER_SIZE this pcData ulDataLength0 w =
     (let ulDataLength = (if ulDataLength0 > PIPE_OUTPUT_BUFFER_SIZE
                          then PIPE_OUTPUT_BUFFER_SIZE else ulDataLength0);
          w1 = WriteFile (m_hStdIn this) pcData ulDataLength w
      in FlushFileBuffers (m_hStdIn this) w1)"

definition CSatelliteProcess_Write :: "DWORD \<Rightarrow> CSatelliteProcess \<Rightarrow> byte list \<Rightarrow> DWORD
    \<Rightarrow> world \<Rightarrow> world" where
  "CSatelliteProcess_Write PIPE_OUTPUT_BUFFER_SIZE this pcData ulDataLength w =
     CSatelliteProcessImpl_Write PIPE_OUTPUT_BUFFER_SIZE (m_shpoImpl this) pcData ulDataLength w"

subsection \<open>Read and ReadErr\<close>









subsection \<open>Construction\<close>

text \<open>
  \<open>CreateProcess\<close> answers with the process and thread handles of
  \<open>PROCESS_INFORMATION\<close> when it succeeds. The constructor gives no initial value to
  \<open>m_ulRetCode\<close>; \<open>uninit_retcode\<close> is the value the member happens to hold.
\<close>

definition CreateProcess :: "(HANDLE \<times> HANDLE) option \<Rightarrow> string \<Rightarrow> HANDLE \<Rightarrow> HANDLE \<Rightarrow> HANDLE
    \<Rightarrow> world \<Rightarrow> (HANDLE \<times> HANDLE) option \<times> world" where
  "CreateProcess reply lpCommandLine hStdInput hStdOutput hStdError w =
     (reply, logged (CreateProcess_call lpCommandLine hStdInput hStdOutput hStdError) w)"

record spawn_replies =
  stdin_pipe :: pipe_replies
  stdout_pipe :: pipe_replies
  stderr_pipe :: pipe_replies
  process :: "(HANDLE \<times> HANDLE) option"
  uninit_retcode :: DWORD

text \<open>
  The three local \<open>CIOPipe\<close> objects are destroyed when the constructor returns, in
  the reverse order of their construction.
\<close>

definition CSatelliteProcess_ctor :: "spawn_replies \<Rightarrow> string \<Rightarrow> DWORD \<Rightarrow> world
    \<Rightarrow> CSatelliteProcess \<times> world" where
  "CSatelliteProcess_ctor R rstrCommandLine ulDestructorWaitMs w0 =
     (let (oStdIn, w1) = CIOPipe_ctor (stdin_pipe R) STD_INPUT_HANDLE CHR ''w'' w0;
          (oStdOut, w2) = CIOPipe_ctor (stdout_pipe R) STD_OUTPUT_HANDLE CHR ''r'' w1;
          (oStdErr, w3) = CIOPipe_ctor (stderr_pipe R) STD_ERROR_HANDLE CHR ''r'' w2;
          (created_process, w4) = CreateProcess (process R) rstrCommandLine
                                    (m_hRead oStdIn) (m_hWrite oStdOut) (m_hWrite oStdErr) w3;
          (hProcessHandle, w5) =
             (case created_process of
                Some (hProcess, hThread) \<Rightarrow> (hProcess, CloseHandle hThread w4)
              | None \<Rightarrow> (INVALID_HANDLE_VALUE, w4));
          impl = \<lparr>m_hStdIn = m_hWrite oStdIn, m_hStdOut = m_hRead oStdOut,
                  m_hStdErr = m_hRead oStdErr, m_hProcess = hProcessHandle\<rparr>;
          w6 = CIOPipe_dtor oStdErr w5;
          w7 = CIOPipe_dtor oStdOut w6;
          w8 = CIOPipe_dtor oStdIn w7
      in (\<lparr>m_strCommandLine = rstrCommandLine, m_shpoImpl = impl, m_boolCompleted = False,
           m_ulRetCode = uninit_retcode R, m_ulDestructorWaitMs = ulDestructorWaitMs\<rparr>, w8))"

subsection \<open>WaitForCompletion and destruction\<close>

text \<open>
  \<open>WaitForSingleObject\<close> answers with a status; how long it blocks before it
  answers is not part of the model. \<open>GetExitCodeProcess\<close> stores the exit code into
  its out-parameter when it succeeds and leaves it as it was when it fails.
\<close>

definition WaitForSingleObject :: "DWORD \<Rightarrow> HANDLE \<Rightarrow> DWORD \<Rightarrow> world \<Rightarrow> DWORD \<times> world" where
  "WaitForSingleObject reply hHandle dwMilliseconds w =
     (reply, logged (WaitForSingleObject_call hHandle dwMilliseconds) w)"

definition TerminateProcess :: "HANDLE \<Rightarrow> DWORD \<Rightarrow> world \<Rightarrow> world" where
  "TerminateProcess hProcess uExitCode w = logged (TerminateProcess_call hProcess uExitCode) w"

definition GetExitCodeProcess :: "DWORD option \<Rightarrow> HANDLE \<Rightarrow> DWORD \<Rightarrow> world \<Rightarrow> DWORD \<times> world" where
  "GetExitCodeProcess reply hProcess out w =
     ((case reply of None \<Rightarrow> out | Some code \<Rightarrow> code), logged (GetExitCodeProcess_call hProcess) w)"

record wait_replies =
  wait_status :: DWORD
  exit_code :: "DWORD option"

definition WaitForCompletion :: "wait_replies \<Rightarrow> DWORD \<Rightarrow> CSatelliteProcess \<Rightarrow> world
    \<Rightarrow> DWORD \<times> CSatelliteProcess \<times> world" where
  "WaitForCompletion R ulWaitMs this w =
     (if m_boolCompleted this then (m_ulRetCode this, this, w)
      else
        (let (status, w1) = WaitForSingleObject (wait_status R) (m_hProcess (m_shpoImpl this)) ulWaitMs w;
             w2 = (if status \<noteq> WAIT_OBJECT_0
                   then TerminateProcess (m_hProcess (m_shpoImpl this)) 0 w1 else w1);
             (dwExitCode, w3) = GetExitCodeProcess (exit_code R) (m_hProcess (m_shpoImpl this)) 0 w2;
             this' = this\<lparr>m_ulRetCode := dwExitCode, m_boolCompleted := True\<rparr>
         in (m_ulRetCode this', this', w3)))"

text \<open>A client that calls \<open>WaitForCompletion\<close> again and again, each time with its own
  timeout and its own answers of the system, and collects the values returned.\<close>

fun WaitForCompletion_calls :: "(wait_replies \<times> DWORD) list \<Rightarrow> CSatelliteProcess \<Rightarrow> world
    \<Rightarrow> DWORD list \<times> CSatelliteProcess \<times> world" where
  "WaitForCompletion_calls [] this w = ([], this, w)"
| "WaitForCompletion_calls ((R, ulWaitMs) # rest) this w =
     (let (code, this1, w1) = WaitForCompletion R ulWaitMs this w;
          (codes, this2, w2) = WaitForCompletion_calls rest this1 w1
      in (code # codes, this2, w2))"

definition CSatelliteProcess_dtor :: "wait_replies \<Rightarrow> CSatelliteProcess \<Rightarrow> world
    \<Rightarrow> CSatelliteProcess \<times> world" where
  "CSatelliteProcess_dtor R this w =
     (if \<not> m_boolCompleted this
      then (let (code, this', w') = WaitForCompletion R (m_ulDestructorWaitMs this) this w
            in (this', w'))
      else (this, w))"

definition CSatelliteProcessImpl_dtor :: "CSatelliteProcessImpl \<Rightarrow> world \<Rightarrow> world" where
  "CSatelliteProcessImpl_dtor this w =
     CloseHandle (m_hProcess this) (CloseHandle (m_hStdErr this)
       (CloseHandle (m_hStdOut this) (CloseHandle (m_hStdIn this) w)))"

text \<open>
  Destroying a \<open>CSatelliteProcess\<close> runs the destructor body and then destroys the
  members, which releases the implementation object and closes its four handles.
\<close>

definition CSatelliteProcess_destroy :: "wait_replies \<Rightarrow> CSatelliteProcess \<Rightarrow> world
    \<Rightarrow> CSatelliteProcess \<times> world" where
  "CSatelliteProcess_destroy R this w =
     (let (this', w1) = CSatelliteProcess_dtor R this w
      in (this', CSatelliteProcessImpl_dtor (m_shpoImpl this') w1))"

section \<open>The service controller (service.cpp)\<close>

text \<open>
  The globals of service.cpp, the free store holding the \<open>CSatelliteProcess\<close> objects
  that are alive, and the operating system. \<open>poApp\<close> is a pointer: an address, with 0
  for the null pointer. An address outside the domain of \<open>heap\<close> points to no live
  object.
\<close>

record service =
  hServiceStatus :: HANDLE
  poApp :: nat
  strCage :: string
  strCommandLine :: string
  heap :: "nat \<rightharpoonup> CSatelliteProcess"
  os :: world

definition SERVICE_SHORT_NAME_PREFIX :: string where
  "SERVICE_SHORT_NAME_PREFIX = ''pmnc3k_''"

definition Sleep :: "DWORD \<Rightarrow> world \<Rightarrow> world" where
  "Sleep dwMilliseconds w = logged (Sleep_call dwMilliseconds) w"

definition SetServiceStatus :: "HANDLE \<Rightarrow> SERVICE_STATUS \<Rightarrow> world \<Rightarrow> world" where
  "SetServiceStatus h lpServiceStatus w = logged (SetServiceStatus_call h lpServiceStatus) w"

definition RegisterServiceCtrlHandlerEx :: "HANDLE \<Rightarrow> string \<Rightarrow> world \<Rightarrow> HANDLE \<times> world" where
  "RegisterServiceCtrlHandlerEx reply lpServiceName w =
     (reply, logged (RegisterServiceCtrlHandlerEx_call lpServiceName) w)"

text \<open>\<open>ServiceSignalStatus\<close> returns what \<open>SetServiceStatus\<close> returns; every caller
  drops that value, and so does the model.\<close>

definition ServiceSignalStatus :: "DWORD \<Rightarrow> DWORD \<Rightarrow> DWORD \<Rightarrow> service \<Rightarrow> service" where
  "ServiceSignalStatus dwServiceStatus dwControlsAccepted0 dwWin32ExitCode0 s =
     (let strucServiceStatus =
            \<lparr>dwServiceType = SERVICE_WIN32_OWN_PROCESS,
             dwCurrentState = dwServiceStatus,
             dwControlsAccepted = dwControlsAccepted0,
             dwWin32ExitCode = dwWin32ExitCode0,
             dwServiceSpecificExitCode = 0,
             dwCheckPoint = 0,
             dwWaitHint = 0\<rparr>
      in s\<lparr>os := SetServiceStatus (hServiceStatus s) strucServiceStatus (os s)\<rparr>)"

text \<open>
  The two ways in which a run of the program ends abnormally. \<open>delete\<close> on an address
  that holds no live object is undefined behaviour. \<open>operator new\<close> throws
  \<open>std::bad_alloc\<close> when it cannot allocate, and no code of the program catches it.
\<close>

datatype fault = DeleteOfDanglingPointer | UncaughtBadAlloc

text \<open>
  What the system answers while the service starts: the handle returned by
  \<open>RegisterServiceCtrlHandlerEx\<close> (0 on failure), the outcome of \<open>operator new\<close>,
  and the answers to the calls of the \<open>CSatelliteProcess\<close> constructor. A
  new-expression never yields a null pointer: \<open>allocated\<close> is the address of the
  storage obtained, and the value 0 stands for the allocation that fails, upon which
  \<open>std::bad_alloc\<close> is thrown before the constructor runs.
\<close>

record start_replies =
  registered :: HANDLE
  allocated :: nat
  spawn :: spawn_replies

definition new_CSatelliteProcess :: "nat \<Rightarrow> spawn_replies \<Rightarrow> string \<Rightarrow> DWORD \<Rightarrow> service
    \<Rightarrow> fault + (nat \<times> service)" where
  "new_CSatelliteProcess addr R rstrCommandLine ulDestructorWaitMs s =
     (if addr = 0 then Inl UncaughtBadAlloc
      else (let (obj, w) = CSatelliteProcess_ctor R rstrCommandLine ulDestructorWaitMs (os s)
            in Inr (addr, s\<lparr>heap := (heap s)(addr \<mapsto> obj), os := w\<rparr>)))"

text \<open>
  The exception leaves \<open>ServiceStart\<close> and \<open>ServiceEntry\<close>; the fault is returned
  with the state reached when it was thrown.
\<close>

definition ServiceStart :: "start_replies \<Rightarrow> service \<Rightarrow> (fault \<times> service) + (bool \<times> service)" where
  "ServiceStart R s =
     (let s1 = s\<lparr>os := Sleep 7000 (os s)\<rparr>
      in (case new_CSatelliteProcess (allocated R) (spawn R) (strCommandLine s1) 0 s1 of
            Inl f \<Rightarrow> Inl (f, s1)
          | Inr (p, s2) \<Rightarrow> (let s3 = s2\<lparr>poApp := p\<rparr> in Inr (poApp s3 \<noteq> 0, s3))))"

definition ServiceRun :: "service \<Rightarrow> service" where
  "ServiceRun s = s"

text \<open>
  \<open>delete\<close> on the null pointer does nothing; on the address of a live object it
  destroys the object and frees it; on any other address the behaviour of the program is
  undefined, which the model reports as a fault.
\<close>

definition delete_CSatelliteProcess :: "wait_replies \<Rightarrow> nat \<Rightarrow> service \<Rightarrow> fault + service" where
  "delete_CSatelliteProcess R p s =
     (if p = 0 then Inr s
      else (case heap s p of
              None \<Rightarrow> Inl DeleteOfDanglingPointer
            | Some this \<Rightarrow>
                (let (this', w) = CSatelliteProcess_destroy R this (os s)
                 in Inr (s\<lparr>heap := (heap s)(p := None), os := w\<rparr>))))"

definition ServiceStop :: "wait_replies \<Rightarrow> service \<Rightarrow> fault + service" where
  "ServiceStop R s =
     (case delete_CSatelliteProcess R (poApp s) s of
        Inl f \<Rightarrow> Inl f
      | Inr s1 \<Rightarrow> Inr (s1\<lparr>os := Sleep 7000 (os s1)\<rparr>))"

definition ServiceHandlerEx :: "wait_replies \<Rightarrow> DWORD \<Rightarrow> service \<Rightarrow> fault + (DWORD \<times> service)" where
  "ServiceHandlerEx R dwControl s =
     (if dwControl = SERVICE_CONTROL_SHUTDOWN \<or> dwControl = SERVICE_CONTROL_STOP then
        (case ServiceStop R s of
           Inl f \<Rightarrow> Inl f
         | Inr s1 \<Rightarrow> Inr (NO_ERROR, ServiceSignalStatus SERVICE_STOPPED 0 NO_ERROR s1))
      else Inr (ERROR_CALL_NOT_IMPLEMENTED, s))"

definition ServiceEntry :: "start_replies \<Rightarrow> service \<Rightarrow> fault option \<times> service" where
  "ServiceEntry R s =
     (let strServiceName = SERVICE_SHORT_NAME_PREFIX @ strCage s;
          (h, w1) = RegisterServiceCtrlHandlerEx (registered R) strServiceName (os s);
          s1 = s\<lparr>hServiceStatus := h, os := w1\<rparr>
      in if hServiceStatus s1 \<noteq> 0 then
           (case ServiceStart R s1 of
              Inl (f, s2) \<Rightarrow> (Some f, s2)
            | Inr (started, s2) \<Rightarrow>
                (None,
                 if started
                 then ServiceRun (ServiceSignalStatus SERVICE_RUNNING
                                    (SERVICE_ACCEPT_SHUTDOWN OR SERVICE_ACCEPT_STOP) NO_ERROR s2)
                 else ServiceSignalStatus SERVICE_STOPPED 0 NO_ERROR s2))
         else (None, s1))"

text \<open>
  The host delivers control codes one after the other, each handled to its end by
  \<open>ServiceHandlerEx\<close>. \<open>deliver\<close> stops at the first fault and returns it with the
  state in which the faulting call started.
\<close>

fun deliver :: "(wait_replies \<times> DWORD) list \<Rightarrow> service \<Rightarrow> fault option \<times> service" where
  "deliver [] s = (None, s)"
| "deliver ((R, dwControl) # rest) s =
     (case ServiceHandlerEx R dwControl s of
        Inl f \<Rightarrow> (Some f, s)
      | Inr (code, s1) \<Rightarrow> deliver rest s1)"

text \<open>
  A run of the service: \<open>ServiceEntry\<close>, then the control codes that the host
  delivers. A fault in \<open>ServiceEntry\<close> ends the run before any code is delivered.
\<close>

definition service_run :: "start_replies \<Rightarrow> (wait_replies \<times> DWORD) list \<Rightarrow> service
    \<Rightarrow> fault option \<times> service" where
  "service_run R cs s =
     (case ServiceEntry R s of
        (Some f, s1) \<Rightarrow> (Some f, s1)
      | (None, s1) \<Rightarrow> deliver cs s1)"

text \<open>The states that the program has reported to the service manager, oldest first.\<close>

fun status_of :: "os_call \<Rightarrow> DWORD list" where
  "status_of (SetServiceStatus_call h st) = [dwCurrentState st]"
| "status_of c = []"

definition reported :: "world \<Rightarrow> DWORD list" where
  "reported w = concat (map status_of (calls w))"

fun is_stop :: "wait_replies \<times> DWORD \<Rightarrow> bool" where
  "is_stop (R, dwControl) = (dwControl = SERVICE_CONTROL_SHUTDOWN \<or> dwControl = SERVICE_CONTROL_STOP)"

subsection \<open>Concrete inputs\<close>

text \<open>The state of the globals when the process starts, on a system without bound
  standard streams, as a service has it.\<close>

definition service_world :: world where
  "service_world = \<lparr>std_handle = (\<lambda>t. 0), calls = []\<rparr>"

definition initial_service :: service where
  "initial_service =
     \<lparr>hServiceStatus = 0, poApp = 0, strCage = ''cage'', strCommandLine = ''python.exe startup.py cage'',
      heap = Map.empty, os = service_world\<rparr>"

definition spawn_ok :: spawn_replies where
  "spawn_ok = \<lparr>stdin_pipe = pipe_ok 20, stdout_pipe = pipe_ok 30, stderr_pipe = pipe_ok 40,
               process = Some (50, 51), uninit_retcode = 0\<rparr>"

definition spawn_failed :: spawn_replies where
  "spawn_failed = \<lparr>stdin_pipe = pipe_ok 20, stdout_pipe = pipe_ok 30, stderr_pipe = pipe_ok 40,
                   process = None, uninit_retcode = 0\<rparr>"

definition start_ok :: start_replies where
  "start_ok = \<lparr>registered = 100, allocated = 4096, spawn = spawn_ok\<rparr>"

definition start_no_object :: start_replies where
  "start_no_object = \<lparr>registered = 100, allocated = 0, spawn = spawn_ok\<rparr>"




definition child_exited :: wait_replies where
  "child_exited = \<lparr>wait_status = WAIT_OBJECT_0, exit_code = Some 3\<rparr>"

definition child_timed_out :: wait_replies where
  "child_timed_out = \<lparr>wait_status = WAIT_TIMEOUT, exit_code = Some 0\<rparr>"

definition sample_process :: CSatelliteProcess where
  "sample_process =
     \<lparr>m_strCommandLine = ''python.exe startup.py cage'',
      m_shpoImpl = \<lparr>m_hStdIn = 22, m_hStdOut = 32, m_hStdErr = 42, m_hProcess = 50\<rparr>,
      m_boolCompleted = False, m_ulRetCode = 0, m_ulDestructorWaitMs = 1000\<rparr>"

subsection \<open>Calls made by a stop signal that finds no object\<close>

text \<open>
  \<open>after_calls cs s\<close> is the state \<open>s\<close> with the calls \<open>cs\<close> added to the log and
  nothing else changed. \<open>stop_calls h c\<close> are the calls that the control code \<open>c\<close>
  causes when \<open>poApp\<close> is null: the settle delay and the report of
  \<open>SERVICE_STOPPED\<close> on the status handle \<open>h\<close> for a stop or shutdown, none for any
  other code.
\<close>

definition after_calls :: "os_call list \<Rightarrow> service \<Rightarrow> service" where
  "after_calls cs s = s\<lparr>os := (os s)\<lparr>calls := calls (os s) @ cs\<rparr>\<rparr>"

definition stop_calls :: "HANDLE \<Rightarrow> wait_replies \<times> DWORD \<Rightarrow> os_call list" where
  "stop_calls h c =
     (if is_stop c
      then [Sleep_call 7000,
            SetServiceStatus_call h
              \<lparr>dwServiceType = SERVICE_WIN32_OWN_PROCESS, dwCurrentState = SERVICE_STOPPED,
               dwControlsAccepted = 0, dwWin32ExitCode = NO_ERROR, dwServiceSpecificExitCode = 0,
               dwCheckPoint = 0, dwWaitHint = 0\<rparr>]
      else [])"

section \<open>Properties of CIOPipe\<close>

lemma calls_logged [simp]: "calls (logged c w) = calls w @ [c]"
  by (simp add: logged_def)

lemma std_handle_logged [simp]: "std_handle (logged c w) = std_handle w"
  by (simp add: logged_def)

lemma CIOPipe_ctor_saved:
  "m_hSaved (fst (CIOPipe_ctor R t mode w)) = std_handle w t
   \<and> m_dwHandleType (fst (CIOPipe_ctor R t mode w)) = t"
  by (simp add: CIOPipe_ctor_def CreatePipe_def GetStdHandle_def DuplicateHandle_def
      CloseHandle_def SetStdHandle_def Let_def split: prod.splits option.splits)

lemma CIOPipe_ctor_std_handle:
  "std_handle (snd (CIOPipe_ctor R t mode w)) =
     (if mode = CHR ''r'' \<or> mode = CHR ''w''
      then (std_handle w)(t := m_hClose (fst (CIOPipe_ctor R t mode w)))
      else std_handle w)"
  by (simp add: CIOPipe_ctor_def CreatePipe_def GetStdHandle_def DuplicateHandle_def
      CloseHandle_def SetStdHandle_def Let_def split: prod.splits option.splits)

text \<open>
  Claim C2. Take any \<open>CIOPipe\<close> construction (any stream kind, any mode, any answer of
  the system to \<open>CreatePipe\<close> and \<open>DuplicateHandle\<close>, success or failure) and destroy
  the object right after. Then the binding of every standard stream is what it was before
  the construction; the destructor makes exactly two calls, one \<open>SetStdHandle\<close> that
  writes back the handle read before construction and one \<open>CloseHandle\<close>; and for the
  two modes \<open>r\<close> and \<open>w\<close> that substitute an end of the pipe as the standard handle,
  the handle closed is the one that was bound to the stream when the destructor started.
\<close>

theorem CIOPipe_restores_binding:
  "(let (p, w1) = CIOPipe_ctor R t mode w; w2 = CIOPipe_dtor p w1
    in std_handle w2 = std_handle w
       \<and> calls w2 = calls w1 @ [SetStdHandle_call t (std_handle w t), CloseHandle_call (m_hClose p)]
       \<and> (mode = CHR ''r'' \<or> mode = CHR ''w'' \<longrightarrow> std_handle w1 t = m_hClose p))"
proof -
  obtain p w1 where ctor: "CIOPipe_ctor R t mode w = (p, w1)"
    by (cases "CIOPipe_ctor R t mode w")
  have saved: "m_hSaved p = std_handle w t" "m_dwHandleType p = t"
    using CIOPipe_ctor_saved [of R t mode w] ctor by simp_all
  have bound: "std_handle w1 =
      (if mode = CHR ''r'' \<or> mode = CHR ''w'' then (std_handle w)(t := m_hClose p) else std_handle w)"
    using CIOPipe_ctor_std_handle [of R t mode w] ctor by simp
  have restored: "std_handle (CIOPipe_dtor p w1) = std_handle w"
    using saved bound by (simp add: CIOPipe_dtor_def CloseHandle_def SetStdHandle_def)
  have log: "calls (CIOPipe_dtor p w1) =
      calls w1 @ [SetStdHandle_call t (std_handle w t), CloseHandle_call (m_hClose p)]"
    using saved by (simp add: CIOPipe_dtor_def CloseHandle_def SetStdHandle_def)
  have closed: "mode = CHR ''r'' \<or> mode = CHR ''w'' \<longrightarrow> std_handle w1 t = m_hClose p"
    using bound by simp
  show ?thesis
    using ctor restored log closed by simp
qed

theorem CIOPipe_restores_binding_witness:
  "(let (p, w1) = CIOPipe_ctor (pipe_ok 20) STD_OUTPUT_HANDLE CHR ''r'' console_world;
        w2 = CIOPipe_dtor p w1
    in std_handle w2 = std_handle console_world
       \<and> calls w2 = calls w1 @ [SetStdHandle_call STD_OUTPUT_HANDLE 7, CloseHandle_call 21]
       \<and> std_handle w1 STD_OUTPUT_HANDLE = 21 \<and> m_hClose p = 21)
   \<and> (let (p, w1) = CIOPipe_ctor pipe_failed STD_INPUT_HANDLE CHR ''w'' console_world;
        w2 = CIOPipe_dtor p w1
    in std_handle w2 = std_handle console_world
       \<and> calls w2 = calls w1 @ [SetStdHandle_call STD_INPUT_HANDLE 3, CloseHandle_call INVALID_HANDLE_VALUE]
       \<and> std_handle w1 STD_INPUT_HANDLE = INVALID_HANDLE_VALUE)"
  using CIOPipe_restores_binding [of "pipe_ok 20" STD_OUTPUT_HANDLE "CHR ''r''" console_world]
    CIOPipe_restores_binding [of pipe_failed STD_INPUT_HANDLE "CHR ''w''" console_world]
  by (simp add: CIOPipe_ctor_def CreatePipe_def GetStdHandle_def DuplicateHandle_def
      CloseHandle_def SetStdHandle_def Let_def pipe_ok_def pipe_failed_def console_world_def
      STD_INPUT_HANDLE_def STD_OUTPUT_HANDLE_def STD_ERROR_HANDLE_def INVALID_HANDLE_VALUE_def)

section \<open>Properties of Write, Read and ReadErr\<close>

lemma take_min_word:
  fixes L len :: DWORD
  assumes "length data = unat len"
  shows "take (unat (if len > L then L else len)) data = take (unat L) data"
  using assms by (auto simp: word_less_nat_alt not_less word_le_nat_alt)

text \<open>
  Claim C4. Let the payload be \<open>ulDataLength\<close> bytes long and let \<open>L\<close> be
  \<open>PIPE_OUTPUT_BUFFER_SIZE\<close>. \<open>Write\<close> makes exactly two calls: one \<open>WriteFile\<close>
  on the child's stdin handle that is handed the first \<open>L\<close> bytes of the payload, then
  one \<open>FlushFileBuffers\<close> on the same handle, and it returns nothing to its caller. When
  the payload is longer than \<open>L\<close> the bytes handed over are exactly \<open>L\<close> many (the
  remainder is dropped without any report); when it is at most \<open>L\<close> long they are the
  whole payload.
\<close>

theorem Write_truncates:
  assumes "length pcData = unat ulDataLength"
  shows "calls (CSatelliteProcess_Write L this pcData ulDataLength w) =
           calls w @ [WriteFile_call (m_hStdIn (m_shpoImpl this)) (take (unat L) pcData),
                      FlushFileBuffers_call (m_hStdIn (m_shpoImpl this))]
         \<and> std_handle (CSatelliteProcess_Write L this pcData ulDataLength w) = std_handle w
         \<and> (L < ulDataLength \<longrightarrow> length (take (unat L) pcData) = unat L)
         \<and> (ulDataLength \<le> L \<longrightarrow> take (unat L) pcData = pcData)"
proof -
  have "take (unat (if ulDataLength > L then L else ulDataLength)) pcData = take (unat L) pcData"
    using assms by (rule take_min_word)
  then have "calls (CSatelliteProcess_Write L this pcData ulDataLength w) =
           calls w @ [WriteFile_call (m_hStdIn (m_shpoImpl this)) (take (unat L) pcData),
                      FlushFileBuffers_call (m_hStdIn (m_shpoImpl this))]"
    by (simp add: CSatelliteProcess_Write_def CSatelliteProcessImpl_Write_def WriteFile_def
        FlushFileBuffers_def Let_def)
  moreover have "std_handle (CSatelliteProcess_Write L this pcData ulDataLength w) = std_handle w"
    by (simp add: CSatelliteProcess_Write_def CSatelliteProcessImpl_Write_def WriteFile_def
        FlushFileBuffers_def Let_def)
  moreover have "L < ulDataLength \<longrightarrow> length (take (unat L) pcData) = unat L"
    using assms by (auto simp: word_less_nat_alt)
  moreover have "ulDataLength \<le> L \<longrightarrow> take (unat L) pcData = pcData"
    using assms by (auto simp: word_le_nat_alt)
  ultimately show ?thesis by blast
qed

theorem Write_truncates_witness:
  "calls (CSatelliteProcess_Write 4 sample_process [1, 2, 3, 4, 5, 6] 6 service_world) =
     [WriteFile_call 22 [1, 2, 3, 4], FlushFileBuffers_call 22]
   \<and> calls (CSatelliteProcess_Write 4 sample_process [1, 2, 3] 3 service_world) =
     [WriteFile_call 22 [1, 2, 3], FlushFileBuffers_call 22]"
  using Write_truncates [of "[1, 2, 3, 4, 5, 6]" 6 4 sample_process service_world]
    Write_truncates [of "[1, 2, 3]" 3 4 sample_process service_world]
  by (simp add: sample_process_def service_world_def)







section \<open>Properties of WaitForCompletion\<close>

text \<open>
  Claim C6. On an object whose completion flag is not set, \<open>WaitForCompletion\<close> waits
  once on the process handle with the given timeout; if the status of the wait is anything
  but \<open>WAIT_OBJECT_0\<close> it calls \<open>TerminateProcess\<close> with exit code 0; then, in both
  cases and as the next call, it queries the exit code. The value returned is the code
  queried (0 when the query itself fails), the same value is stored in \<open>m_ulRetCode\<close>,
  the completion flag is set, and nothing else changes.
\<close>

theorem WaitForCompletion_first_call:
  assumes "\<not> m_boolCompleted this"
  shows "WaitForCompletion R ulWaitMs this w =
    (let h = m_hProcess (m_shpoImpl this);
         code = (case exit_code R of None \<Rightarrow> 0 | Some c \<Rightarrow> c)
     in (code, this\<lparr>m_ulRetCode := code, m_boolCompleted := True\<rparr>,
         w\<lparr>calls := calls w @ WaitForSingleObject_call h ulWaitMs
                 # (if wait_status R \<noteq> WAIT_OBJECT_0 then [TerminateProcess_call h 0] else [])
                 @ [GetExitCodeProcess_call h]\<rparr>))"
  using assms
  by (simp add: WaitForCompletion_def WaitForSingleObject_def TerminateProcess_def
      GetExitCodeProcess_def logged_def Let_def)

theorem WaitForCompletion_first_call_witness:
  "WaitForCompletion child_timed_out 1000 sample_process service_world =
     (0, sample_process\<lparr>m_ulRetCode := 0, m_boolCompleted := True\<rparr>,
      service_world\<lparr>calls := [WaitForSingleObject_call 50 1000, TerminateProcess_call 50 0,
                               GetExitCodeProcess_call 50]\<rparr>)
   \<and> WaitForCompletion child_exited 1000 sample_process service_world =
     (3, sample_process\<lparr>m_ulRetCode := 3, m_boolCompleted := True\<rparr>,
      service_world\<lparr>calls := [WaitForSingleObject_call 50 1000, GetExitCodeProcess_call 50]\<rparr>)"
  using WaitForCompletion_first_call [of sample_process child_timed_out 1000 service_world]
    WaitForCompletion_first_call [of sample_process child_exited 1000 service_world]
  by (simp add: sample_process_def service_world_def child_timed_out_def child_exited_def
      WAIT_OBJECT_0_def WAIT_TIMEOUT_def)

lemma WaitForCompletion_completed:
  "m_boolCompleted this \<Longrightarrow> WaitForCompletion R ulWaitMs this w = (m_ulRetCode this, this, w)"
  by (simp add: WaitForCompletion_def)

lemma WaitForCompletion_sets_flag:
  "m_boolCompleted (fst (snd (WaitForCompletion R ulWaitMs this w)))
   \<and> m_ulRetCode (fst (snd (WaitForCompletion R ulWaitMs this w))) = fst (WaitForCompletion R ulWaitMs this w)"
  by (simp add: WaitForCompletion_def Let_def split: prod.splits)

lemma WaitForCompletion_calls_completed:
  "m_boolCompleted this \<Longrightarrow>
   WaitForCompletion_calls later this w = (replicate (length later) (m_ulRetCode this), this, w)"
  by (induction later) (auto simp: WaitForCompletion_completed)

text \<open>
  Claim C3. Let \<open>WaitForCompletion\<close> be called once, on any object and in any state of
  the system, and let it return \<open>code\<close>. Then the completion flag is set and \<open>code\<close>
  is the cached exit code; and any number of further calls, whatever their timeouts and
  whatever the system would answer, all return \<open>code\<close> and leave both the object
  (cached code and flag included) and the system (log of calls included) exactly as the
  first call left them: no wait, no termination, no query.
\<close>

theorem WaitForCompletion_idempotent:
  "(let (code, this1, w1) = WaitForCompletion R ulWaitMs this w
    in m_boolCompleted this1 \<and> m_ulRetCode this1 = code
       \<and> WaitForCompletion_calls later this1 w1 = (replicate (length later) code, this1, w1))"
proof -
  obtain code this1 w1 where first: "WaitForCompletion R ulWaitMs this w = (code, this1, w1)"
    by (cases "WaitForCompletion R ulWaitMs this w")
  have flag: "m_boolCompleted this1" and cached: "m_ulRetCode this1 = code"
    using WaitForCompletion_sets_flag [of R ulWaitMs this w] first by simp_all
  have "WaitForCompletion_calls later this1 w1 = (replicate (length later) code, this1, w1)"
    using WaitForCompletion_calls_completed [OF flag, of later w1] cached by simp
  with first flag cached show ?thesis by simp
qed

theorem WaitForCompletion_idempotent_witness:
  "(let (code, this1, w1) = WaitForCompletion child_timed_out 1000 sample_process service_world
    in code = 0 \<and> m_boolCompleted this1
       \<and> WaitForCompletion_calls [(child_exited, 60000), (child_exited, 0)] this1 w1 = ([0, 0], this1, w1)
       \<and> calls w1 = [WaitForSingleObject_call 50 1000, TerminateProcess_call 50 0,
                               GetExitCodeProcess_call 50])"
  using WaitForCompletion_idempotent [of child_timed_out 1000 sample_process service_world
      "[(child_exited, 60000), (child_exited, 0)]"]
  by (simp add: WaitForCompletion_def WaitForSingleObject_def TerminateProcess_def
      GetExitCodeProcess_def logged_def Let_def
      sample_process_def service_world_def child_timed_out_def child_exited_def
      WAIT_OBJECT_0_def WAIT_TIMEOUT_def)

section \<open>Properties of construction and destruction\<close>

lemma CIOPipe_ctor_w:
  "fst (CIOPipe_ctor P t CHR ''w'' w) =
     \<lparr>m_dwHandleType = t, m_hSaved = std_handle w t,
      m_hRead = (case created P of None \<Rightarrow> INVALID_HANDLE_VALUE | Some (r, wr) \<Rightarrow> r),
      m_hWrite = (case duplicated P of None \<Rightarrow> uninit_local P | Some h \<Rightarrow> h),
      m_hClose = (case created P of None \<Rightarrow> INVALID_HANDLE_VALUE | Some (r, wr) \<Rightarrow> r)\<rparr>"
  by (simp add: CIOPipe_ctor_def CreatePipe_def GetStdHandle_def DuplicateHandle_def
      CloseHandle_def SetStdHandle_def Let_def split: prod.splits option.splits)

lemma CIOPipe_ctor_r:
  "fst (CIOPipe_ctor P t CHR ''r'' w) =
     \<lparr>m_dwHandleType = t, m_hSaved = std_handle w t,
      m_hRead = (case duplicated P of None \<Rightarrow> uninit_local P | Some h \<Rightarrow> h),
      m_hWrite = (case created P of None \<Rightarrow> INVALID_HANDLE_VALUE | Some (r, wr) \<Rightarrow> wr),
      m_hClose = (case created P of None \<Rightarrow> INVALID_HANDLE_VALUE | Some (r, wr) \<Rightarrow> wr)\<rparr>"
  by (simp add: CIOPipe_ctor_def CreatePipe_def GetStdHandle_def DuplicateHandle_def
      CloseHandle_def SetStdHandle_def Let_def split: prod.splits option.splits)

lemma CSatelliteProcess_ctor_object:
  "fst (CSatelliteProcess_ctor R cmd ms w) =
     \<lparr>m_strCommandLine = cmd,
      m_shpoImpl =
        \<lparr>m_hStdIn = (case duplicated (stdin_pipe R) of None \<Rightarrow> uninit_local (stdin_pipe R) | Some h \<Rightarrow> h),
         m_hStdOut = (case duplicated (stdout_pipe R) of None \<Rightarrow> uninit_local (stdout_pipe R) | Some h \<Rightarrow> h),
         m_hStdErr = (case duplicated (stderr_pipe R) of None \<Rightarrow> uninit_local (stderr_pipe R) | Some h \<Rightarrow> h),
         m_hProcess = (case process R of None \<Rightarrow> INVALID_HANDLE_VALUE | Some (hProcess, hThread) \<Rightarrow> hProcess)\<rparr>,
      m_boolCompleted = False,
      m_ulRetCode = uninit_retcode R,
      m_ulDestructorWaitMs = ms\<rparr>"
proof -
  obtain p1 w1 where c1: "CIOPipe_ctor (stdin_pipe R) STD_INPUT_HANDLE CHR ''w'' w = (p1, w1)"
    by (cases "CIOPipe_ctor (stdin_pipe R) STD_INPUT_HANDLE CHR ''w'' w")
  obtain p2 w2 where c2: "CIOPipe_ctor (stdout_pipe R) STD_OUTPUT_HANDLE CHR ''r'' w1 = (p2, w2)"
    by (cases "CIOPipe_ctor (stdout_pipe R) STD_OUTPUT_HANDLE CHR ''r'' w1")
  obtain p3 w3 where c3: "CIOPipe_ctor (stderr_pipe R) STD_ERROR_HANDLE CHR ''r'' w2 = (p3, w3)"
    by (cases "CIOPipe_ctor (stderr_pipe R) STD_ERROR_HANDLE CHR ''r'' w2")
  have h1: "m_hWrite p1 = (case duplicated (stdin_pipe R) of None \<Rightarrow> uninit_local (stdin_pipe R) | Some h \<Rightarrow> h)"
    using CIOPipe_ctor_w [of "stdin_pipe R" STD_INPUT_HANDLE w] c1 by simp
  have h2: "m_hRead p2 = (case duplicated (stdout_pipe R) of None \<Rightarrow> uninit_local (stdout_pipe R) | Some h \<Rightarrow> h)"
    using CIOPipe_ctor_r [of "stdout_pipe R" STD_OUTPUT_HANDLE w1] c2 by simp
  have h3: "m_hRead p3 = (case duplicated (stderr_pipe R) of None \<Rightarrow> uninit_local (stderr_pipe R) | Some h \<Rightarrow> h)"
    using CIOPipe_ctor_r [of "stderr_pipe R" STD_ERROR_HANDLE w2] c3 by simp
  show ?thesis
    using c1 c2 c3 h1 h2 h3
    by (simp add: CSatelliteProcess_ctor_def CreateProcess_def Let_def split: prod.splits option.splits)
qed

lemma CIOPipe_dtor_std_handle:
  "std_handle (CIOPipe_dtor p w) = (std_handle w)(m_dwHandleType p := m_hSaved p)"
  by (simp add: CIOPipe_dtor_def CloseHandle_def SetStdHandle_def)

lemma CSatelliteProcess_ctor_std_handle:
  "std_handle (snd (CSatelliteProcess_ctor R cmd ms w)) = std_handle w"
proof -
  obtain p1 w1 where c1: "CIOPipe_ctor (stdin_pipe R) STD_INPUT_HANDLE CHR ''w'' w = (p1, w1)"
    by (cases "CIOPipe_ctor (stdin_pipe R) STD_INPUT_HANDLE CHR ''w'' w")
  obtain p2 w2 where c2: "CIOPipe_ctor (stdout_pipe R) STD_OUTPUT_HANDLE CHR ''r'' w1 = (p2, w2)"
    by (cases "CIOPipe_ctor (stdout_pipe R) STD_OUTPUT_HANDLE CHR ''r'' w1")
  obtain p3 w3 where c3: "CIOPipe_ctor (stderr_pipe R) STD_ERROR_HANDLE CHR ''r'' w2 = (p3, w3)"
    by (cases "CIOPipe_ctor (stderr_pipe R) STD_ERROR_HANDLE CHR ''r'' w2")
  have s1: "m_hSaved p1 = std_handle w STD_INPUT_HANDLE" "m_dwHandleType p1 = STD_INPUT_HANDLE"
    and b1: "std_handle w1 = (std_handle w)(STD_INPUT_HANDLE := m_hClose p1)"
    using CIOPipe_ctor_saved [of "stdin_pipe R" STD_INPUT_HANDLE "CHR ''w''" w]
      CIOPipe_ctor_std_handle [of "stdin_pipe R" STD_INPUT_HANDLE "CHR ''w''" w] c1 by simp_all
  have s2: "m_hSaved p2 = std_handle w1 STD_OUTPUT_HANDLE" "m_dwHandleType p2 = STD_OUTPUT_HANDLE"
    and b2: "std_handle w2 = (std_handle w1)(STD_OUTPUT_HANDLE := m_hClose p2)"
    using CIOPipe_ctor_saved [of "stdout_pipe R" STD_OUTPUT_HANDLE "CHR ''r''" w1]
      CIOPipe_ctor_std_handle [of "stdout_pipe R" STD_OUTPUT_HANDLE "CHR ''r''" w1] c2 by simp_all
  have s3: "m_hSaved p3 = std_handle w2 STD_ERROR_HANDLE" "m_dwHandleType p3 = STD_ERROR_HANDLE"
    and b3: "std_handle w3 = (std_handle w2)(STD_ERROR_HANDLE := m_hClose p3)"
    using CIOPipe_ctor_saved [of "stderr_pipe R" STD_ERROR_HANDLE "CHR ''r''" w2]
      CIOPipe_ctor_std_handle [of "stderr_pipe R" STD_ERROR_HANDLE "CHR ''r''" w2] c3 by simp_all
  have "std_handle (snd (CSatelliteProcess_ctor R cmd ms w)) =
      (((std_handle w3)(STD_ERROR_HANDLE := m_hSaved p3))(STD_OUTPUT_HANDLE := m_hSaved p2))
        (STD_INPUT_HANDLE := m_hSaved p1)"
    using c1 c2 c3 s1(2) s2(2) s3(2)
    by (simp add: CSatelliteProcess_ctor_def CreateProcess_def CIOPipe_dtor_std_handle
        CloseHandle_def Let_def split: prod.splits option.splits)
  also have "\<dots> = std_handle w"
    by (simp add: s1 s2 s3 b1 b2 b3 fun_eq_iff STD_INPUT_HANDLE_def STD_OUTPUT_HANDLE_def
        STD_ERROR_HANDLE_def)
  finally show ?thesis .
qed

text \<open>
  Claim C7. When \<open>CreateProcess\<close> fails, the constructor still returns an object,
  whatever the system answered to the pipe calls: the process handle of the object is
  \<open>INVALID_HANDLE_VALUE\<close>, its three pipe handles are the parent-side ends left by the
  three \<open>CIOPipe\<close> constructions (the duplicate of the write end for stdin, of the read
  end for stdout and stderr), the completion flag is not set, and the bindings of the
  standard streams are what they were before the construction.
\<close>

theorem spawn_failure_is_stored:
  assumes "process R = None"
  shows "(let (this, w') = CSatelliteProcess_ctor R cmd ms w
          in this =
             \<lparr>m_strCommandLine = cmd,
              m_shpoImpl =
                \<lparr>m_hStdIn = (case duplicated (stdin_pipe R) of None \<Rightarrow> uninit_local (stdin_pipe R) | Some h \<Rightarrow> h),
                 m_hStdOut = (case duplicated (stdout_pipe R) of None \<Rightarrow> uninit_local (stdout_pipe R) | Some h \<Rightarrow> h),
                 m_hStdErr = (case duplicated (stderr_pipe R) of None \<Rightarrow> uninit_local (stderr_pipe R) | Some h \<Rightarrow> h),
                 m_hProcess = INVALID_HANDLE_VALUE\<rparr>,
              m_boolCompleted = False,
              m_ulRetCode = uninit_retcode R,
              m_ulDestructorWaitMs = ms\<rparr>
           \<and> std_handle w' = std_handle w)"
  using assms CSatelliteProcess_ctor_object [of R cmd ms w]
    CSatelliteProcess_ctor_std_handle [of R cmd ms w]
  by (simp add: split_beta)

theorem spawn_failure_is_stored_witness:
  "fst (CSatelliteProcess_ctor spawn_failed ''python.exe startup.py cage'' 0 console_world) =
     \<lparr>m_strCommandLine = ''python.exe startup.py cage'',
      m_shpoImpl = \<lparr>m_hStdIn = 22, m_hStdOut = 32, m_hStdErr = 42, m_hProcess = - 1\<rparr>,
      m_boolCompleted = False, m_ulRetCode = 0, m_ulDestructorWaitMs = 0\<rparr>
   \<and> std_handle (snd (CSatelliteProcess_ctor spawn_failed ''python.exe startup.py cage'' 0 console_world))
       = std_handle console_world"
  using spawn_failure_is_stored [of spawn_failed "''python.exe startup.py cage''" 0 console_world]
  by (simp add: split_beta spawn_failed_def pipe_ok_def INVALID_HANDLE_VALUE_def)

text \<open>
  Claim C9. The destructor body of \<open>CSatelliteProcess\<close> always leaves the completion
  flag set. If the flag was already set, it changes neither the object nor the system: no
  wait, no termination, no query. If the flag was not set, its result is that of
  \<open>WaitForCompletion\<close> called with \<open>m_ulDestructorWaitMs\<close>, and the calls it makes
  are the wait with that budget, the termination when the wait did not report
  \<open>WAIT_OBJECT_0\<close>, and the query of the exit code. Destroying the object then only adds
  the closing of the four handles. The budget is the one given to the constructor.
\<close>

theorem destructor_waits_unless_completed:
  "(let (this', w') = CSatelliteProcess_dtor R this w;
        h = m_hProcess (m_shpoImpl this);
        code = (case exit_code R of None \<Rightarrow> 0 | Some c \<Rightarrow> c)
    in m_boolCompleted this'
       \<and> (m_boolCompleted this \<longrightarrow> this' = this \<and> w' = w)
       \<and> (\<not> m_boolCompleted this \<longrightarrow>
            (code, this', w') = WaitForCompletion R (m_ulDestructorWaitMs this) this w
            \<and> calls w' = calls w @ WaitForSingleObject_call h (m_ulDestructorWaitMs this)
                 # (if wait_status R \<noteq> WAIT_OBJECT_0 then [TerminateProcess_call h 0] else [])
                 @ [GetExitCodeProcess_call h])
       \<and> snd (CSatelliteProcess_destroy R this w) =
           w'\<lparr>calls := calls w' @ [CloseHandle_call (m_hStdIn (m_shpoImpl this)),
                                  CloseHandle_call (m_hStdOut (m_shpoImpl this)),
                                  CloseHandle_call (m_hStdErr (m_shpoImpl this)),
                                  CloseHandle_call (m_hProcess (m_shpoImpl this))]\<rparr>)
   \<and> m_ulDestructorWaitMs (fst (CSatelliteProcess_ctor S cmd ms w0)) = ms"
proof (cases "m_boolCompleted this")
  case True
  then show ?thesis
    by (simp add: CSatelliteProcess_dtor_def CSatelliteProcess_destroy_def
        CSatelliteProcessImpl_dtor_def CloseHandle_def logged_def CSatelliteProcess_ctor_object)
next
  case False
  then show ?thesis
    by (simp add: CSatelliteProcess_dtor_def CSatelliteProcess_destroy_def
        CSatelliteProcessImpl_dtor_def CloseHandle_def logged_def CSatelliteProcess_ctor_object
        WaitForCompletion_def WaitForSingleObject_def TerminateProcess_def
        GetExitCodeProcess_def Let_def)
qed

theorem destructor_waits_unless_completed_witness:
  "CSatelliteProcess_dtor child_timed_out sample_process service_world =
     (sample_process\<lparr>m_ulRetCode := 0, m_boolCompleted := True\<rparr>,
      service_world\<lparr>calls := [WaitForSingleObject_call 50 1000, TerminateProcess_call 50 0,
                               GetExitCodeProcess_call 50]\<rparr>)
   \<and> CSatelliteProcess_dtor child_timed_out (sample_process\<lparr>m_ulRetCode := 3, m_boolCompleted := True\<rparr>)
        service_world =
     (sample_process\<lparr>m_ulRetCode := 3, m_boolCompleted := True\<rparr>, service_world)"
  using destructor_waits_unless_completed [of child_timed_out sample_process service_world
      spawn_ok "''x''" 0 service_world]
    destructor_waits_unless_completed [of child_timed_out
      "sample_process\<lparr>m_ulRetCode := 3, m_boolCompleted := True\<rparr>" service_world
      spawn_ok "''x''" 0 service_world]
  by (simp add: CSatelliteProcess_dtor_def WaitForCompletion_def WaitForSingleObject_def
      TerminateProcess_def GetExitCodeProcess_def logged_def Let_def
      sample_process_def service_world_def child_timed_out_def
      WAIT_OBJECT_0_def WAIT_TIMEOUT_def)

section \<open>Properties of the service controller\<close>

lemma reported_logged [simp]: "reported (logged c w) = reported w @ status_of c"
  by (simp add: reported_def logged_def)

lemma reported_std_handle [simp]: "reported (w\<lparr>std_handle := f\<rparr>) = reported w"
  by (simp add: reported_def)

lemma reported_CIOPipe_ctor: "reported (snd (CIOPipe_ctor P t mode w)) = reported w"
  by (simp add: CIOPipe_ctor_def CreatePipe_def GetStdHandle_def DuplicateHandle_def
      CloseHandle_def SetStdHandle_def Let_def split: prod.splits option.splits)

lemma reported_CIOPipe_dtor: "reported (CIOPipe_dtor p w) = reported w"
  by (simp add: CIOPipe_dtor_def CloseHandle_def SetStdHandle_def)

lemma reported_CSatelliteProcess_ctor:
  "reported (snd (CSatelliteProcess_ctor R cmd ms w)) = reported w"
proof -
  obtain p1 w1 where c1: "CIOPipe_ctor (stdin_pipe R) STD_INPUT_HANDLE CHR ''w'' w = (p1, w1)"
    by (cases "CIOPipe_ctor (stdin_pipe R) STD_INPUT_HANDLE CHR ''w'' w")
  obtain p2 w2 where c2: "CIOPipe_ctor (stdout_pipe R) STD_OUTPUT_HANDLE CHR ''r'' w1 = (p2, w2)"
    by (cases "CIOPipe_ctor (stdout_pipe R) STD_OUTPUT_HANDLE CHR ''r'' w1")
  obtain p3 w3 where c3: "CIOPipe_ctor (stderr_pipe R) STD_ERROR_HANDLE CHR ''r'' w2 = (p3, w3)"
    by (cases "CIOPipe_ctor (stderr_pipe R) STD_ERROR_HANDLE CHR ''r'' w2")
  have "reported w1 = reported w" "reported w2 = reported w1" "reported w3 = reported w2"
    using reported_CIOPipe_ctor [of "stdin_pipe R" STD_INPUT_HANDLE "CHR ''w''" w]
      reported_CIOPipe_ctor [of "stdout_pipe R" STD_OUTPUT_HANDLE "CHR ''r''" w1]
      reported_CIOPipe_ctor [of "stderr_pipe R" STD_ERROR_HANDLE "CHR ''r''" w2] c1 c2 c3
    by simp_all
  then show ?thesis
    using c1 c2 c3
    by (simp add: CSatelliteProcess_ctor_def CreateProcess_def reported_CIOPipe_dtor
        CloseHandle_def Let_def split: prod.splits option.splits)
qed

lemma reported_WaitForCompletion:
  "reported (snd (snd (WaitForCompletion R ms this w))) = reported w"
  by (simp add: WaitForCompletion_def WaitForSingleObject_def TerminateProcess_def
      GetExitCodeProcess_def Let_def)

lemma reported_CSatelliteProcess_destroy:
  "reported (snd (CSatelliteProcess_destroy R this w)) = reported w"
  using reported_WaitForCompletion [of R "m_ulDestructorWaitMs this" this w]
  by (simp add: CSatelliteProcess_destroy_def CSatelliteProcess_dtor_def
      CSatelliteProcessImpl_dtor_def CloseHandle_def split_beta)

lemma ServiceStart_fails:
  "allocated R = 0 \<Longrightarrow> ServiceStart R s = Inl (UncaughtBadAlloc, s\<lparr>os := Sleep 7000 (os s)\<rparr>)"
  by (simp add: ServiceStart_def new_CSatelliteProcess_def Let_def)

lemma ServiceStart_succeeds:
  assumes "allocated R \<noteq> 0"
  shows "\<exists>s'. ServiceStart R s = Inr (True, s') \<and> poApp s' = allocated R
              \<and> hServiceStatus s' = hServiceStatus s
              \<and> reported (os s') = reported (os s)"
  using assms reported_CSatelliteProcess_ctor [of "spawn R" "strCommandLine s" 0 "Sleep 7000 (os s)"]
  by (simp add: ServiceStart_def new_CSatelliteProcess_def Sleep_def Let_def split_beta)

lemma reported_ServiceSignalStatus:
  "reported (os (ServiceSignalStatus st acc code s)) = reported (os s) @ [st]"
  by (simp add: ServiceSignalStatus_def SetServiceStatus_def)

lemma poApp_ServiceSignalStatus:
  "poApp (ServiceSignalStatus st acc code s) = poApp s"
  by (simp add: ServiceSignalStatus_def)

lemma ServiceEntry_reports:
  "reported (os (snd (ServiceEntry R s))) =
     reported (os s) @ (if registered R \<noteq> 0 \<and> allocated R \<noteq> 0 then [SERVICE_RUNNING] else [])
   \<and> fst (ServiceEntry R s) =
       (if registered R \<noteq> 0 \<and> allocated R = 0 then Some UncaughtBadAlloc else None)"
proof -
  let ?s1 = "s\<lparr>hServiceStatus := registered R,
               os := logged (RegisterServiceCtrlHandlerEx_call (SERVICE_SHORT_NAME_PREFIX @ strCage s)) (os s)\<rparr>"
  have entry: "ServiceEntry R s =
      (if registered R \<noteq> 0 then
         (case ServiceStart R ?s1 of
            Inl (f, s2) \<Rightarrow> (Some f, s2)
          | Inr (started, s2) \<Rightarrow>
              (None,
               if started
               then ServiceRun (ServiceSignalStatus SERVICE_RUNNING
                                  (SERVICE_ACCEPT_SHUTDOWN OR SERVICE_ACCEPT_STOP) NO_ERROR s2)
               else ServiceSignalStatus SERVICE_STOPPED 0 NO_ERROR s2))
       else (None, ?s1))"
    by (simp add: ServiceEntry_def RegisterServiceCtrlHandlerEx_def Let_def)
  show ?thesis
  proof (cases "registered R = 0")
    case True
    then show ?thesis using entry by simp
  next
    case registered: False
    show ?thesis
    proof (cases "allocated R = 0")
      case True
      then show ?thesis
        using entry registered ServiceStart_fails [of R ?s1] by (simp add: Sleep_def)
    next
      case False
      then obtain s' where "ServiceStart R ?s1 = Inr (True, s')" "reported (os s') = reported (os ?s1)"
        using ServiceStart_succeeds [of R ?s1] by blast
      then show ?thesis
        using entry registered False by (simp add: ServiceRun_def reported_ServiceSignalStatus)
    qed
  qed
qed

text \<open>
  Claim C8, the code at the failing input. The control handler is registered and the
  allocation of the \<open>CSatelliteProcess\<close> fails. \<open>ServiceStart\<close> does not return
  false: \<open>std::bad_alloc\<close> leaves it and \<open>ServiceEntry\<close> uncaught, after the
  registration and the warm-up delay and before any report, so that neither
  \<open>SERVICE_STOPPED\<close> nor any other state is reported. When the allocation succeeds,
  \<open>poApp\<close> is not null and \<open>SERVICE_RUNNING\<close> is reported.
\<close>

theorem start_failure_reports_nothing:
  "fst (ServiceEntry start_no_object initial_service) = Some UncaughtBadAlloc
   \<and> calls (os (snd (ServiceEntry start_no_object initial_service))) =
       [RegisterServiceCtrlHandlerEx_call ''pmnc3k_cage'', Sleep_call 7000]
   \<and> reported (os (snd (ServiceEntry start_no_object initial_service))) = []
   \<and> fst (ServiceEntry start_ok initial_service) = None
   \<and> reported (os (snd (ServiceEntry start_ok initial_service))) = [SERVICE_RUNNING]"
proof -
  have failing: "ServiceEntry start_no_object initial_service =
      (Some UncaughtBadAlloc,
       initial_service\<lparr>hServiceStatus := 100,
         os := service_world\<lparr>calls := [RegisterServiceCtrlHandlerEx_call ''pmnc3k_cage'',
                                        Sleep_call 7000]\<rparr>\<rparr>)"
    by (simp add: ServiceEntry_def ServiceStart_def new_CSatelliteProcess_def
        RegisterServiceCtrlHandlerEx_def Sleep_def logged_def start_no_object_def
        initial_service_def service_world_def SERVICE_SHORT_NAME_PREFIX_def Let_def)
  have ok: "fst (ServiceEntry start_ok initial_service) = None"
    "reported (os (snd (ServiceEntry start_ok initial_service))) = [SERVICE_RUNNING]"
    using ServiceEntry_reports [of start_ok initial_service]
    by (simp_all add: start_ok_def initial_service_def service_world_def reported_def)
  show ?thesis
    using ok by (simp add: failing reported_def service_world_def)
qed

lemma ServiceHandlerEx_reports:
  "ServiceHandlerEx R c s = Inr (code, s') \<Longrightarrow>
   reported (os s') = reported (os s) @ (if is_stop (R, c) then [SERVICE_STOPPED] else [])"
  using reported_CSatelliteProcess_destroy [of R _ "os s"]
  by (auto simp: ServiceHandlerEx_def ServiceStop_def delete_CSatelliteProcess_def Sleep_def
      reported_ServiceSignalStatus split_beta Let_def split: if_splits sum.splits option.splits)

lemma deliver_reports:
  "\<exists>new. reported (os (snd (deliver cs s))) = reported (os s) @ new
         \<and> set new \<subseteq> {SERVICE_STOPPED}"
proof (induction cs arbitrary: s)
  case Nil
  then show ?case by simp
next
  case (Cons a cs)
  obtain R c where a: "a = (R, c)" by (cases a)
  show ?case
  proof (cases "ServiceHandlerEx R c s")
    case (Inl f)
    then show ?thesis using a by simp
  next
    case (Inr r)
    obtain code s1 where r: "r = (code, s1)" by (cases r)
    from Cons.IH [of s1] obtain new where
      new: "reported (os (snd (deliver cs s1))) = reported (os s1) @ new" "set new \<subseteq> {SERVICE_STOPPED}"
      by blast
    have "reported (os s1) = reported (os s) @ (if is_stop (R, c) then [SERVICE_STOPPED] else [])"
      using ServiceHandlerEx_reports [of R c s code s1] Inr r by simp
    with new have "reported (os (snd (deliver cs s1))) =
        reported (os s) @ ((if is_stop (R, c) then [SERVICE_STOPPED] else []) @ new)
      \<and> set ((if is_stop (R, c) then [SERVICE_STOPPED] else []) @ new) \<subseteq> {SERVICE_STOPPED}"
      by auto
    then show ?thesis using a Inr r by (simp del: is_stop.simps)
  qed
qed

lemma started_service:
  "ServiceEntry start_ok initial_service =
     (None,
      \<lparr>hServiceStatus = 100, poApp = 4096, strCage = ''cage'',
      strCommandLine = ''python.exe startup.py cage'',
      heap = [4096 \<mapsto> fst (CSatelliteProcess_ctor spawn_ok ''python.exe startup.py cage'' 0
                 (Sleep 7000 (logged (RegisterServiceCtrlHandlerEx_call ''pmnc3k_cage'') service_world)))],
      os = SetServiceStatus 100
             \<lparr>dwServiceType = 16, dwCurrentState = 4, dwControlsAccepted = 5, dwWin32ExitCode = 0,
              dwServiceSpecificExitCode = 0, dwCheckPoint = 0, dwWaitHint = 0\<rparr>
             (snd (CSatelliteProcess_ctor spawn_ok ''python.exe startup.py cage'' 0
                 (Sleep 7000 (logged (RegisterServiceCtrlHandlerEx_call ''pmnc3k_cage'') service_world))))\<rparr>)"
  by (simp add: ServiceEntry_def ServiceStart_def ServiceRun_def ServiceSignalStatus_def
      new_CSatelliteProcess_def RegisterServiceCtrlHandlerEx_def start_ok_def initial_service_def
      SERVICE_SHORT_NAME_PREFIX_def SERVICE_RUNNING_def SERVICE_ACCEPT_SHUTDOWN_def
      SERVICE_ACCEPT_STOP_def SERVICE_WIN32_OWN_PROCESS_def NO_ERROR_def Let_def split_beta)

text \<open>
  Claim C10. Run \<open>ServiceEntry\<close> and then deliver any sequence of control codes to
  \<open>ServiceHandlerEx\<close>, with any answers of the system, up to the end of the sequence or
  to the first fault (the uncaught exception of a failed allocation in \<open>ServiceEntry\<close>
  included). Every state reported to the service manager during that run is
  \<open>SERVICE_RUNNING\<close> or \<open>SERVICE_STOPPED\<close>; \<open>SERVICE_START_PENDING\<close> and
  \<open>SERVICE_STOP_PENDING\<close> are never reported.
\<close>

theorem only_running_and_stopped_reported:
  "\<exists>new. reported (os (snd (service_run R cs s))) = reported (os s) @ new
         \<and> set new \<subseteq> {SERVICE_RUNNING, SERVICE_STOPPED}
         \<and> SERVICE_START_PENDING \<notin> set new \<and> SERVICE_STOP_PENDING \<notin> set new"
proof -
  obtain f s1 where entry: "ServiceEntry R s = (f, s1)"
    by (cases "ServiceEntry R s")
  define new1 where
    "new1 = (if registered R \<noteq> 0 \<and> allocated R \<noteq> 0 then [SERVICE_RUNNING] else [])"
  have new1: "reported (os s1) = reported (os s) @ new1"
      "set new1 \<subseteq> {SERVICE_RUNNING, SERVICE_STOPPED}"
    using ServiceEntry_reports [of R s] entry by (auto simp: new1_def)
  obtain new2 where new2:
      "reported (os (snd (service_run R cs s))) = reported (os s1) @ new2"
      "set new2 \<subseteq> {SERVICE_STOPPED}"
  proof (cases f)
    case None
    then have "service_run R cs s = deliver cs s1"
      using entry by (simp add: service_run_def)
    then show ?thesis
      using deliver_reports [of cs s1] that by auto
  next
    case (Some a)
    then have "service_run R cs s = (Some a, s1)"
      using entry by (simp add: service_run_def)
    then show ?thesis
      using that [of "[]"] by simp
  qed
  have subset: "set (new1 @ new2) \<subseteq> {SERVICE_RUNNING, SERVICE_STOPPED}"
    using new1(2) new2(2) by auto
  have "SERVICE_START_PENDING \<notin> {SERVICE_RUNNING, SERVICE_STOPPED}"
    "SERVICE_STOP_PENDING \<notin> {SERVICE_RUNNING, SERVICE_STOPPED}"
    by (simp_all add: SERVICE_START_PENDING_def SERVICE_STOP_PENDING_def SERVICE_RUNNING_def
        SERVICE_STOPPED_def)
  with subset have "SERVICE_START_PENDING \<notin> set (new1 @ new2)" "SERVICE_STOP_PENDING \<notin> set (new1 @ new2)"
    by blast+
  moreover have "reported (os (snd (service_run R cs s))) = reported (os s) @ (new1 @ new2)"
    using new1(1) new2(1) by simp
  ultimately show ?thesis using subset by blast
qed

theorem only_running_and_stopped_reported_witness:
  "reported (os (snd (service_run start_ok [(child_timed_out, SERVICE_CONTROL_STOP)] initial_service)))
     = [SERVICE_RUNNING, SERVICE_STOPPED]
   \<and> reported (os (snd (service_run start_no_object [(child_timed_out, SERVICE_CONTROL_STOP)]
       initial_service))) = []"
proof -
  have run: "service_run start_ok [(child_timed_out, SERVICE_CONTROL_STOP)] initial_service =
      deliver [(child_timed_out, SERVICE_CONTROL_STOP)] (snd (ServiceEntry start_ok initial_service))"
    by (simp add: service_run_def started_service)
  have "reported (os (snd (deliver [(child_timed_out, SERVICE_CONTROL_STOP)]
      (snd (ServiceEntry start_ok initial_service))))) =
      reported (os (snd (ServiceEntry start_ok initial_service))) @ [SERVICE_STOPPED]"
    using reported_CSatelliteProcess_destroy
    by (simp add: started_service ServiceHandlerEx_def ServiceStop_def delete_CSatelliteProcess_def
        reported_ServiceSignalStatus Sleep_def split_beta)
  moreover have "reported (os (snd (ServiceEntry start_ok initial_service))) = [SERVICE_RUNNING]"
    using ServiceEntry_reports [of start_ok initial_service]
    by (simp add: start_ok_def initial_service_def service_world_def reported_def)
  ultimately have a: "reported (os (snd (service_run start_ok [(child_timed_out, SERVICE_CONTROL_STOP)]
      initial_service))) = [SERVICE_RUNNING, SERVICE_STOPPED]"
    using run by simp
  have "fst (ServiceEntry start_no_object initial_service) = Some UncaughtBadAlloc"
    "reported (os (snd (ServiceEntry start_no_object initial_service))) = []"
    using ServiceEntry_reports [of start_no_object initial_service]
    by (simp_all add: start_no_object_def initial_service_def service_world_def reported_def)
  then have b: "reported (os (snd (service_run start_no_object [(child_timed_out, SERVICE_CONTROL_STOP)]
       initial_service))) = []"
    by (cases "ServiceEntry start_no_object initial_service") (simp add: service_run_def)
  show ?thesis
    using a b only_running_and_stopped_reported [of start_ok "[(child_timed_out, SERVICE_CONTROL_STOP)]"
        initial_service]
    by simp
qed

lemma after_calls_Nil: "after_calls [] s = s"
  by (simp add: after_calls_def)

lemma after_calls_append: "after_calls ys (after_calls xs s) = after_calls (xs @ ys) s"
  by (simp add: after_calls_def)

lemma after_calls_fields:
  "poApp (after_calls cs s) = poApp s" "hServiceStatus (after_calls cs s) = hServiceStatus s"
  "heap (after_calls cs s) = heap s" "strCage (after_calls cs s) = strCage s"
  "strCommandLine (after_calls cs s) = strCommandLine s"
  "std_handle (os (after_calls cs s)) = std_handle (os s)"
  "calls (os (after_calls cs s)) = calls (os s) @ cs"
  by (simp_all add: after_calls_def)

lemma ServiceHandlerEx_null:
  "poApp s = 0 \<Longrightarrow>
   ServiceHandlerEx R c s =
     Inr (if is_stop (R, c) then NO_ERROR else ERROR_CALL_NOT_IMPLEMENTED,
          after_calls (stop_calls (hServiceStatus s) (R, c)) s)"
  by (simp add: ServiceHandlerEx_def ServiceStop_def delete_CSatelliteProcess_def Sleep_def
      ServiceSignalStatus_def SetServiceStatus_def logged_def after_calls_def stop_calls_def)

lemma deliver_null:
  "poApp s = 0 \<Longrightarrow>
   deliver cs s = (None, after_calls (concat (map (stop_calls (hServiceStatus s)) cs)) s)"
proof (induction cs arbitrary: s)
  case Nil
  then show ?case by (simp add: after_calls_Nil)
next
  case (Cons a cs)
  obtain R c where a: "a = (R, c)" by (cases a)
  let ?s1 = "after_calls (stop_calls (hServiceStatus s) (R, c)) s"
  have step: "ServiceHandlerEx R c s =
      Inr (if is_stop (R, c) then NO_ERROR else ERROR_CALL_NOT_IMPLEMENTED, ?s1)"
    using Cons.prems by (rule ServiceHandlerEx_null)
  have "poApp ?s1 = 0" "hServiceStatus ?s1 = hServiceStatus s"
    using Cons.prems by (simp_all add: after_calls_fields)
  then have "deliver cs ?s1 =
      (None, after_calls (concat (map (stop_calls (hServiceStatus s)) cs)) ?s1)"
    using Cons.IH [of ?s1] by simp
  then show ?case
    using a step by (simp add: after_calls_append del: is_stop.simps)
qed

lemma reported_stop_calls:
  "concat (map status_of (concat (map (stop_calls h) cs))) =
     replicate (length (filter is_stop cs)) SERVICE_STOPPED"
  by (induction cs) (simp_all add: stop_calls_def del: is_stop.simps)

text \<open>
  Claim C1, as amended. On a controller whose \<open>poApp\<close> is null (it was never started),
  any sequence of control codes is handled without a fault; \<open>poApp\<close> stays null and the
  free store and the other globals are unchanged. The signals are not without effect for
  the host, though: each stop or shutdown signal sleeps the settle delay and reports
  \<open>SERVICE_STOPPED\<close>, so that as many reports of \<open>SERVICE_STOPPED\<close> are added as stop
  and shutdown signals were delivered.
\<close>

theorem stop_without_process:
  assumes "poApp s = 0"
  shows "deliver cs s = (None, after_calls (concat (map (stop_calls (hServiceStatus s)) cs)) s)
         \<and> reported (os (snd (deliver cs s))) =
             reported (os s) @ replicate (length (filter is_stop cs)) SERVICE_STOPPED
         \<and> poApp (snd (deliver cs s)) = 0 \<and> heap (snd (deliver cs s)) = heap s"
  using assms deliver_null [OF assms, of cs]
  by (simp add: after_calls_fields reported_def reported_stop_calls)

theorem stop_without_process_witness:
  "deliver [(child_exited, SERVICE_CONTROL_STOP), (child_exited, 4), (child_exited, SERVICE_CONTROL_SHUTDOWN)]
     initial_service =
     (None, after_calls
        [Sleep_call 7000,
         SetServiceStatus_call 0
           \<lparr>dwServiceType = 16, dwCurrentState = 1, dwControlsAccepted = 0, dwWin32ExitCode = 0,
            dwServiceSpecificExitCode = 0, dwCheckPoint = 0, dwWaitHint = 0\<rparr>,
         Sleep_call 7000,
         SetServiceStatus_call 0
           \<lparr>dwServiceType = 16, dwCurrentState = 1, dwControlsAccepted = 0, dwWin32ExitCode = 0,
            dwServiceSpecificExitCode = 0, dwCheckPoint = 0, dwWaitHint = 0\<rparr>] initial_service)
   \<and> reported (os (snd (deliver [(child_exited, SERVICE_CONTROL_STOP), (child_exited, 4),
        (child_exited, SERVICE_CONTROL_SHUTDOWN)] initial_service))) = [SERVICE_STOPPED, SERVICE_STOPPED]"
proof -
  have h: "poApp initial_service = 0"
    by (simp add: initial_service_def)
  show ?thesis
    using stop_without_process [OF h, of "[(child_exited, SERVICE_CONTROL_STOP), (child_exited, 4),
        (child_exited, SERVICE_CONTROL_SHUTDOWN)]"]
    by (simp add: stop_calls_def initial_service_def service_world_def reported_def
        SERVICE_CONTROL_STOP_def SERVICE_CONTROL_SHUTDOWN_def SERVICE_WIN32_OWN_PROCESS_def
        SERVICE_STOPPED_def NO_ERROR_def after_calls_fields del: deliver.simps)
qed

text \<open>
  Claim C1 as stated fails. Two stop signals delivered to the controller that was never
  started report \<open>SERVICE_STOPPED\<close> twice, and already the first one changes the log of
  calls. On a controller that was started, the first stop signal destroys the object but
  leaves its address in \<open>poApp\<close>, and the second stop signal deletes that address again.
\<close>

theorem second_stop_counterexample:
  "reported (os (snd (deliver [(child_exited, SERVICE_CONTROL_STOP), (child_exited, SERVICE_CONTROL_STOP)]
       initial_service))) = [SERVICE_STOPPED, SERVICE_STOPPED]
   \<and> calls (os (snd (deliver [(child_exited, SERVICE_CONTROL_STOP)] initial_service)))
       \<noteq> calls (os initial_service)
   \<and> fst (deliver [(child_exited, SERVICE_CONTROL_STOP)] (snd (ServiceEntry start_ok initial_service))) = None
   \<and> fst (deliver [(child_exited, SERVICE_CONTROL_STOP), (child_exited, SERVICE_CONTROL_STOP)]
       (snd (ServiceEntry start_ok initial_service))) = Some DeleteOfDanglingPointer"
proof -
  have never_started: "poApp initial_service = 0"
    by (simp add: initial_service_def)
  have a: "reported (os (snd (deliver [(child_exited, SERVICE_CONTROL_STOP), (child_exited, SERVICE_CONTROL_STOP)]
       initial_service))) = [SERVICE_STOPPED, SERVICE_STOPPED]"
    unfolding deliver_null [OF never_started]
    by (simp add: after_calls_fields stop_calls_def reported_def
        initial_service_def service_world_def)
  have b: "calls (os (snd (deliver [(child_exited, SERVICE_CONTROL_STOP)] initial_service)))
       \<noteq> calls (os initial_service)"
    unfolding deliver_null [OF never_started]
    by (simp add: after_calls_fields stop_calls_def)
  have c: "fst (deliver [(child_exited, SERVICE_CONTROL_STOP)] (snd (ServiceEntry start_ok initial_service))) = None"
    by (simp add: started_service ServiceHandlerEx_def ServiceStop_def delete_CSatelliteProcess_def
        split_beta)
  have d: "fst (deliver [(child_exited, SERVICE_CONTROL_STOP), (child_exited, SERVICE_CONTROL_STOP)]
       (snd (ServiceEntry start_ok initial_service))) = Some DeleteOfDanglingPointer"
    by (simp add: started_service ServiceHandlerEx_def ServiceStop_def delete_CSatelliteProcess_def
        ServiceSignalStatus_def split_beta)
  from a b c d show ?thesis by blast
qed

end
